theory Spec2Isabelle
  imports Main
begin

section \<open>The dictation page of src/app/page.tsx as a state machine\<close>

text \<open>
  The component \<^verbatim>\<open>SpeechToTextApp\<close> keeps its session in React state variables and
  refs. The model keeps them in one record, together with the part of the browser the
  handlers act on: the microphone streams handed out by \<^verbatim>\<open>getUserMedia\<close>, the
  \<^verbatim>\<open>MediaRecorder\<close> objects, the clipboard, the console and the pending auto-copy
  timeout. Every handler of the source is a function from session to session; whatever
  the browser decides (permission prompts, supported encodings, the HTTP response, the
  clipboard write) is an argument of the handler.

  Strings are lists of 8-bit characters.
\<close>

named_theorems handler_defs

subsection \<open>Data\<close>

datatype transcription_method = WebApi | Aiml

text \<open>One entry of \<^verbatim>\<open>event.results\<close>: \<^verbatim>\<open>result.isFinal\<close> and \<^verbatim>\<open>result[0].transcript\<close>.\<close>

record recognition_result =
  isFinal :: bool
  first_transcript :: string

record speech_event =
  results :: "recognition_result list"
  resultIndex :: nat

text \<open>
  A \<^verbatim>\<open>MediaRecorder\<close> created by \<^verbatim>\<open>startWhisperRecording\<close>, with what its
  \<^verbatim>\<open>onstop\<close> closure captured (the stream and the MIME type). Its
  \<^verbatim>\<open>state\<close> is \<^verbatim>\<open>'recording'\<close> in phase \<open>Recording\<close> and \<^verbatim>\<open>'inactive'\<close> in the
  others: \<open>StopQueued\<close> after \<^verbatim>\<open>stop()\<close> until the stop event is delivered,
  \<open>Uploading\<close> while \<^verbatim>\<open>onstop\<close> awaits the transcription of the blob (data and
  type), \<open>Finished\<close> once \<^verbatim>\<open>onstop\<close> has returned.
\<close>

datatype recorder_phase = Recording | StopQueued | Uploading string string | Finished

record media_recorder =
  rec_stream :: nat
  rec_mimeType :: string
  rec_phase :: recorder_phase

record session =
  isListening :: bool
  transcript :: string
  interimTranscript :: string
  selectedLanguage :: string
  isSupported :: bool
  error :: string
  copySuccess :: bool
  isTranscribing :: bool
  transcriptionMethod :: transcription_method
  isRecording :: bool
  recordingTime :: nat
  autoCopyEnabled :: bool
  justStoppedRecording :: bool
  recognitionRef :: bool
  mediaRecorderRef :: "nat option"
  audioChunksRef :: "string list"
  streamRef :: "nat option"
  timerRef :: bool
  streams :: "nat list"
  recorders :: "media_recorder list"
  clipboard :: string
  console :: "string list"
  autoCopyTimer :: "nat option"

text \<open>
  \<open>recognitionRef\<close> says whether \<^verbatim>\<open>recognitionRef.current\<close> is set and \<open>timerRef\<close>
  whether \<^verbatim>\<open>timerRef.current\<close> holds an interval. \<open>streams ! k\<close> counts how often the
  tracks of the \<open>k\<close>-th stream that \<^verbatim>\<open>getUserMedia\<close> returned have been stopped;
  \<open>streamRef\<close> and \<open>mediaRecorderRef\<close> hold indices into \<open>streams\<close> and
  \<open>recorders\<close>. \<open>autoCopyTimer\<close> is the pending timeout of the auto-copy effect
  with its delay in milliseconds.
\<close>

definition initial :: session where
  "initial = \<lparr> isListening = False, transcript = [], interimTranscript = [],
     selectedLanguage = ''en-US'', isSupported = True, error = [], copySuccess = False,
     isTranscribing = False, transcriptionMethod = WebApi, isRecording = False,
     recordingTime = 0, autoCopyEnabled = False, justStoppedRecording = False,
     recognitionRef = False, mediaRecorderRef = None, audioChunksRef = [],
     streamRef = None, timerRef = False, streams = [], recorders = [],
     clipboard = [], console = [], autoCopyTimer = None \<rparr>"

text \<open>
  What the browser answers when a handler asks: \<open>getUserMedia\<close> is \<open>None\<close> when the
  promise resolves with a stream and \<open>Some m\<close> when it rejects with message \<open>m\<close>;
  \<open>isTypeSupported\<close> lists the MIME types \<^verbatim>\<open>MediaRecorder.isTypeSupported\<close> accepts;
  \<open>recorderError\<close> is \<open>Some m\<close> when \<^verbatim>\<open>new MediaRecorder\<close> throws an error with
  message \<open>m\<close>; \<open>recognitionStart\<close> is false when \<^verbatim>\<open>recognition.start()\<close> throws;
  \<open>clipboardWrite\<close> is false when \<^verbatim>\<open>navigator.clipboard.writeText\<close> rejects.
\<close>

record environment =
  getUserMedia :: "string option"
  isTypeSupported :: "string list"
  recorderError :: "string option"
  recognitionStart :: bool
  clipboardWrite :: bool

record key_event =
  ctrlKey :: bool
  key :: string
  code :: string

text \<open>
  The outcome of \<^verbatim>\<open>fetch('/api/transcribe')\<close> followed by \<^verbatim>\<open>response.json()\<close>: the
  fetch rejects, or the response is not ok and its body parses to an object whose
  \<^verbatim>\<open>error\<close> field may be absent, or it is ok and its body parses to an object with a
  \<^verbatim>\<open>text\<close>; in both cases parsing the body may reject instead.
\<close>

datatype 'a json_body = JsonRejects string | JsonValue 'a

datatype fetch_outcome =
    FetchRejects string
  | ResponseNotOk "string option json_body"
  | ResponseOk "string json_body"

text \<open>
  An edit of the text area: the user replaces \<open>removed\<close> characters at position
  \<open>at\<close> of the displayed text by \<open>inserted\<close> (typing, deleting, pasting).
\<close>

record edit =
  at :: nat
  removed :: nat
  inserted :: string

subsection \<open>Recording timer (lines 273-285)\<close>

definition startTimer :: "session \<Rightarrow> session" where [handler_defs]:
  "startTimer s = s\<lparr>recordingTime := 0, timerRef := True\<rparr>"

definition stopTimer :: "session \<Rightarrow> session" where [handler_defs]:
  "stopTimer s = (if timerRef s then s\<lparr>timerRef := False\<rparr> else s)"

subsection \<open>Live recognition callbacks (lines 212-261)\<close>

definition recognition_onstart :: "session \<Rightarrow> session" where [handler_defs]:
  "recognition_onstart s = s\<lparr>isListening := True, error := []\<rparr>"

definition recognition_onend :: "session \<Rightarrow> session" where [handler_defs]:
  "recognition_onend s =
     (stopTimer (s\<lparr>isListening := False, interimTranscript := []\<rparr>))
       \<lparr>justStoppedRecording := True\<rparr>"

text \<open>
  The loop of \<^verbatim>\<open>onresult\<close> over \<^verbatim>\<open>event.results\<close> from \<^verbatim>\<open>event.resultIndex\<close> on,
  with its two accumulators \<^verbatim>\<open>finalTranscript\<close> and \<^verbatim>\<open>interimText\<close>.
\<close>

fun onresult_loop :: "recognition_result list \<Rightarrow> string \<times> string \<Rightarrow> string \<times> string" where
  "onresult_loop [] acc = acc"
| "onresult_loop (r # rs) (finalTranscript, interimText) =
     (if isFinal r
      then onresult_loop rs (finalTranscript @ first_transcript r, interimText)
      else onresult_loop rs (finalTranscript, interimText @ first_transcript r))"

definition recognition_onresult :: "speech_event \<Rightarrow> session \<Rightarrow> session" where
  "recognition_onresult ev s =
     (case onresult_loop (drop (resultIndex ev) (results ev)) ([], []) of
        (finalTranscript, interimText) \<Rightarrow>
          (if finalTranscript \<noteq> []
           then s\<lparr>transcript := transcript s @ finalTranscript @ '' ''\<rparr>
           else s)\<lparr>interimTranscript := interimText\<rparr>)"

definition recognition_onerror :: "string \<Rightarrow> session \<Rightarrow> session" where [handler_defs]:
  "recognition_onerror err s =
     (let s1 = s\<lparr>isListening := False\<rparr> in
      if err = ''not-allowed'' then
        s1\<lparr>error := ''Microphone access denied. Please allow microphone access and try again.''\<rparr>
      else if err = ''no-speech'' then
        s1\<lparr>error := ''No speech detected. Please try speaking again.''\<rparr>
      else if err = ''network'' then
        s1\<lparr>isSupported := False, transcriptionMethod := Aiml,
           error := ''Web Speech is unavailable in this browser or region. Switched to OpenAI transcription.''\<rparr>
      else if err = ''service-not-allowed'' then
        s1\<lparr>isSupported := False, transcriptionMethod := Aiml,
           error := ''Web Speech is not allowed. Switched to OpenAI transcription.''\<rparr>
      else
        s1\<lparr>error := ''Speech recognition error: '' @ err @
                      ''. Try using OpenAI transcription instead.''\<rparr>)"

subsection \<open>The probing effect (lines 152-205)\<close>

definition effect_unsupported :: "session \<Rightarrow> session" where [handler_defs]:
  "effect_unsupported s =
     s\<lparr>isSupported := False, transcriptionMethod := Aiml,
       error := ''Web Speech is not supported in this browser. Using OpenAI transcription instead.''\<rparr>"

definition handleTestError :: "string \<Rightarrow> session \<Rightarrow> session" where [handler_defs]:
  "handleTestError err s =
     (if err = ''network'' \<or> err = ''service-not-allowed''
      then s\<lparr>isSupported := False, transcriptionMethod := Aiml,
             error := ''Web Speech is not available in this browser or region. Switched to OpenAI transcription.''\<rparr>
      else s)"

definition testTimeout :: "session \<Rightarrow> session" where [handler_defs]:
  "testTimeout s =
     s\<lparr>isSupported := False, transcriptionMethod := Aiml,
       error := ''Web Speech test failed. Switched to OpenAI transcription.''\<rparr>"

definition effect_start_throws :: "session \<Rightarrow> session" where [handler_defs]:
  "effect_start_throws s =
     s\<lparr>isSupported := False, transcriptionMethod := Aiml,
       error := ''Web Speech is not available. Using OpenAI transcription instead.''\<rparr>"

definition effect_initialized :: "session \<Rightarrow> session" where [handler_defs]:
  "effect_initialized s = s\<lparr>recognitionRef := True\<rparr>"

subsection \<open>Live start and stop, clear, copy (lines 293-330)\<close>

definition startListening :: "environment \<Rightarrow> session \<Rightarrow> session" where [handler_defs]:
  "startListening env s =
     (if \<not> recognitionRef s \<or> \<not> isSupported s then s
      else case getUserMedia env of
        Some m \<Rightarrow>
          s\<lparr>error := ''Microphone access denied. Please allow microphone access and try again.''\<rparr>
      | None \<Rightarrow>
          (let s1 = startTimer (s\<lparr>streams := streams s @ [0], error := []\<rparr>) in
           if recognitionStart env then s1
           else s1\<lparr>error := ''Microphone access denied. Please allow microphone access and try again.''\<rparr>))"

definition stopListening :: "session \<Rightarrow> session" where [handler_defs]:
  "stopListening s = stopTimer s"

definition clearTranscript :: "session \<Rightarrow> session" where [handler_defs]:
  "clearTranscript s = s\<lparr>transcript := [], interimTranscript := []\<rparr>"

definition copyToClipboard :: "bool \<Rightarrow> session \<Rightarrow> session" where [handler_defs]:
  "copyToClipboard written s =
     (if written then s\<lparr>clipboard := transcript s, copySuccess := True\<rparr>
      else s\<lparr>console := console s @ [''Failed to copy to clipboard:'']\<rparr>)"

subsection \<open>Batch recording (lines 334-412)\<close>

fun firstSupported :: "string list \<Rightarrow> string list \<Rightarrow> string \<Rightarrow> string" where
  "firstSupported [] supported mimeType = mimeType"
| "firstSupported (t # ts) supported mimeType =
     (if t \<in> set supported then t else firstSupported ts supported mimeType)"

definition supportedTypes :: "string list" where
  "supportedTypes = [''audio/webm;codecs=opus'', ''audio/webm'', ''audio/mp4'', ''audio/wav'']"

definition startWhisperRecording :: "environment \<Rightarrow> session \<Rightarrow> session" where [handler_defs]:
  "startWhisperRecording env s =
     (case getUserMedia env of
        Some m \<Rightarrow>
          s\<lparr>error := ''Error accessing microphone: '' @ m,
            console := console s @ [''Microphone error:'']\<rparr>
      | None \<Rightarrow>
          (let mimeType =
                 firstSupported supportedTypes (isTypeSupported env) ''audio/webm;codecs=opus'';
               s1 = s\<lparr>error := [], streams := streams s @ [0],
                      streamRef := Some (length (streams s)),
                      console := console s @ [''Using MIME type: '' @ mimeType]\<rparr>
           in case recorderError env of
                Some m \<Rightarrow>
                  s1\<lparr>error := ''Error accessing microphone: '' @ m,
                     console := console s1 @ [''Microphone error:'']\<rparr>
              | None \<Rightarrow>
                  startTimer
                    (s1\<lparr>recorders := recorders s @
                          [\<lparr>rec_stream = length (streams s), rec_mimeType = mimeType,
                            rec_phase = Recording\<rparr>],
                        mediaRecorderRef := Some (length (recorders s)),
                        audioChunksRef := [],
                        isRecording := True\<rparr>)))"

definition ondataavailable :: "string \<Rightarrow> session \<Rightarrow> session" where [handler_defs]:
  "ondataavailable chunk s =
     (if length chunk > 0 then s\<lparr>audioChunksRef := audioChunksRef s @ [chunk]\<rparr> else s)"

definition set_phase :: "nat \<Rightarrow> recorder_phase \<Rightarrow> session \<Rightarrow> session" where [handler_defs]:
  "set_phase rid ph s =
     s\<lparr>recorders := (recorders s)[rid := (recorders s ! rid)\<lparr>rec_phase := ph\<rparr>]\<rparr>"

definition is_recording :: "nat \<Rightarrow> session \<Rightarrow> bool" where [handler_defs]:
  "is_recording rid s = (rid < length (recorders s) \<and> rec_phase (recorders s ! rid) = Recording)"

definition stopWhisperRecording :: "session \<Rightarrow> session" where [handler_defs]:
  "stopWhisperRecording s =
     stopTimer
       ((case mediaRecorderRef s of
           None \<Rightarrow> s
         | Some rid \<Rightarrow> if is_recording rid s then set_phase rid StopQueued s else s)
        \<lparr>isRecording := False\<rparr>)"

subsection \<open>Batch transcription (lines 414-450)\<close>

text \<open>
  \<^verbatim>\<open>transcribeWithWhisper\<close> runs up to \<^verbatim>\<open>await fetch\<close>, and continues when the browser
  has an outcome. A completion is the session with the error that is being thrown, if
  one is: the \<^verbatim>\<open>try\<close> block throws on every outcome but a parsed ok response, the
  \<^verbatim>\<open>catch\<close> block handles what was thrown, the \<^verbatim>\<open>finally\<close> block runs either way.
  The request (the form data and the file name chosen from the MIME type) does not touch
  the session.
\<close>

definition transcribeWithWhisper_begin :: "session \<Rightarrow> session" where [handler_defs]:
  "transcribeWithWhisper_begin s = s\<lparr>isTranscribing := True, error := []\<rparr>"

definition whisper_try :: "fetch_outcome \<Rightarrow> session \<Rightarrow> session \<times> string option" where
  "whisper_try out s =
     (case out of
        FetchRejects m \<Rightarrow> (s, Some m)
      | ResponseNotOk (JsonRejects m) \<Rightarrow> (s, Some m)
      | ResponseNotOk (JsonValue e) \<Rightarrow>
          (s, Some (case e of
                      None \<Rightarrow> ''Error in transcription''
                    | Some msg \<Rightarrow> if msg = [] then ''Error in transcription'' else msg))
      | ResponseOk (JsonRejects m) \<Rightarrow> (s, Some m)
      | ResponseOk (JsonValue text) \<Rightarrow>
          (s\<lparr>transcript :=
                transcript s @ (if transcript s \<noteq> [] then [CHR 0x0A, CHR 0x0A] else []) @ text\<rparr>,
           None))"

definition whisper_catch :: "session \<times> string option \<Rightarrow> session \<times> string option" where
  "whisper_catch c =
     (case c of
        (s, None) \<Rightarrow> (s, None)
      | (s, Some m) \<Rightarrow>
          (s\<lparr>error := ''Transcription error: '' @ m,
             console := console s @ [''Transcription error:'']\<rparr>, None))"

definition whisper_finally :: "session \<times> string option \<Rightarrow> session \<times> string option" where
  "whisper_finally c =
     (case c of (s, thrown) \<Rightarrow>
        (s\<lparr>isTranscribing := False, justStoppedRecording := True\<rparr>, thrown))"

definition transcribeWithWhisper_settle ::
    "fetch_outcome \<Rightarrow> session \<Rightarrow> session \<times> string option" where
  "transcribeWithWhisper_settle out s = whisper_finally (whisper_catch (whisper_try out s))"

definition transcribeWithWhisper :: "fetch_outcome \<Rightarrow> session \<Rightarrow> session \<times> string option" where
  "transcribeWithWhisper out s = transcribeWithWhisper_settle out (transcribeWithWhisper_begin s)"

text \<open>
  \<^verbatim>\<open>mediaRecorder.onstop\<close> (lines 381-392) of recorder \<open>rid\<close>: it builds the blob and
  starts the transcription; when the transcription has returned it stops the tracks of
  the stream it captured and clears \<^verbatim>\<open>streamRef\<close>. Were the awaited call to throw, the
  cleanup would be skipped.
\<close>

definition onstop_begin :: "nat \<Rightarrow> session \<Rightarrow> session" where [handler_defs]:
  "onstop_begin rid s =
     transcribeWithWhisper_begin
       (set_phase rid
          (Uploading (concat (audioChunksRef s)) (rec_mimeType (recorders s ! rid))) s)"

definition stopTracks :: "nat \<Rightarrow> session \<Rightarrow> session" where [handler_defs]:
  "stopTracks sid s = s\<lparr>streams := (streams s)[sid := Suc (streams s ! sid)]\<rparr>"

definition onstop_settle :: "nat \<Rightarrow> fetch_outcome \<Rightarrow> session \<Rightarrow> session" where
  "onstop_settle rid out s =
     (case transcribeWithWhisper_settle out s of
        (s1, Some m) \<Rightarrow> set_phase rid Finished s1
      | (s1, None) \<Rightarrow>
          set_phase rid Finished
            ((stopTracks (rec_stream (recorders s ! rid)) s1)\<lparr>streamRef := None\<rparr>))"

subsection \<open>Keyboard shortcuts and controls (lines 88-127, 459-609)\<close>

definition toggle :: "environment \<Rightarrow> session \<Rightarrow> session \<Rightarrow> session" where [handler_defs]:
  "toggle env r s =
     (if transcriptionMethod r = WebApi
      then (if isListening r then stopListening s else startListening env s)
      else (if isRecording r then stopWhisperRecording s else startWhisperRecording env s))"

text \<open>
  \<^verbatim>\<open>handleKeyDown\<close>: three conditionals in sequence, each tested on the values of the
  render the listener was registered in (\<open>s\<close>).
\<close>

definition handleKeyDown :: "key_event \<Rightarrow> environment \<Rightarrow> session \<Rightarrow> session" where
  "handleKeyDown k env s =
     (let s1 = (if ctrlKey k \<and> key k = ''c'' \<and> transcript s \<noteq> []
                then copyToClipboard (clipboardWrite env) s else s);
          s2 = (if ctrlKey k \<and> key k = ''d'' \<and> transcript s \<noteq> []
                then clearTranscript s1 else s1)
      in if code k = ''Space'' \<and> \<not> isTranscribing s then toggle env s s2 else s2)"

definition click_toggle :: "environment \<Rightarrow> session \<Rightarrow> session" where [handler_defs]:
  "click_toggle env s = (if isTranscribing s then s else toggle env s s)"

definition click_copy :: "bool \<Rightarrow> session \<Rightarrow> session" where [handler_defs]:
  "click_copy written s = (if transcript s = [] then s else copyToClipboard written s)"

definition click_clear :: "session \<Rightarrow> session" where [handler_defs]:
  "click_clear s = (if transcript s = [] then s else clearTranscript s)"

text \<open>
  The two radio inputs: both call \<^verbatim>\<open>setTranscriptionMethod\<close>; the Web Speech one is
  \<^verbatim>\<open>disabled={!isSupported}\<close>, and a disabled input delivers no change.
\<close>

definition select_method :: "transcription_method \<Rightarrow> session \<Rightarrow> session" where [handler_defs]:
  "select_method m s =
     (if m = WebApi \<and> \<not> isSupported s then s else s\<lparr>transcriptionMethod := m\<rparr>)"

text \<open>The language selector is rendered only while the method is \<^verbatim>\<open>'web-api'\<close>.\<close>

definition select_language :: "string \<Rightarrow> session \<Rightarrow> session" where [handler_defs]:
  "select_language l s =
     (if transcriptionMethod s = WebApi then s\<lparr>selectedLanguage := l\<rparr> else s)"

text \<open>
  The text area shows \<^verbatim>\<open>transcript + interimTranscript\<close>; an edit changes the text
  shown, and \<^verbatim>\<open>onChange\<close> stores the whole new text as the transcript.
\<close>

definition textarea_value :: "session \<Rightarrow> string" where
  "textarea_value s = transcript s @ interimTranscript s"

definition apply_edit :: "edit \<Rightarrow> string \<Rightarrow> string" where
  "apply_edit e v = take (at e) v @ inserted e @ drop (at e + removed e) v"

definition textarea_onChange :: "edit \<Rightarrow> session \<Rightarrow> session" where
  "textarea_onChange e s = s\<lparr>transcript := apply_edit e (textarea_value s)\<rparr>"

definition set_autoCopy :: "bool \<Rightarrow> session \<Rightarrow> session" where [handler_defs]:
  "set_autoCopy b s = s\<lparr>autoCopyEnabled := b\<rparr>"

subsection \<open>The auto-copy effect (lines 129-141)\<close>

text \<open>
  \<^verbatim>\<open>String.prototype.trim\<close> on 8-bit characters: tab, line feed, vertical tab, form
  feed, carriage return, space and no-break space are removed from both ends.
\<close>

definition js_whitespace :: "char \<Rightarrow> bool" where
  "js_whitespace c =
     (c \<in> set [CHR 0x09, CHR 0x0A, CHR 0x0B, CHR 0x0C, CHR 0x0D, CHR 0x20, CHR 0xA0])"

definition trim :: "string \<Rightarrow> string" where
  "trim v = rev (dropWhile js_whitespace (rev (dropWhile js_whitespace v)))"

definition autoCopy_effect :: "session \<Rightarrow> session" where
  "autoCopy_effect s =
     (if justStoppedRecording s \<and> autoCopyEnabled s \<and> trim (transcript s) \<noteq> []
      then s\<lparr>autoCopyTimer := Some 500\<rparr>
      else if justStoppedRecording s then s\<lparr>justStoppedRecording := False\<rparr>
      else s)"

definition autoCopy_timeout :: "bool \<Rightarrow> session \<Rightarrow> session" where
  "autoCopy_timeout written s =
     (case autoCopyTimer s of
        None \<Rightarrow> s
      | Some d \<Rightarrow>
          (copyToClipboard written s)\<lparr>justStoppedRecording := False, autoCopyTimer := None\<rparr>)"

definition copySuccess_timeout :: "session \<Rightarrow> session" where [handler_defs]:
  "copySuccess_timeout s = s\<lparr>copySuccess := False\<rparr>"

definition tick :: "session \<Rightarrow> session" where [handler_defs]:
  "tick s = s\<lparr>recordingTime := recordingTime s + 1\<rparr>"

text \<open>
  After a handler has run React renders again; the auto-copy effect has the dependencies
  \<^verbatim>\<open>[justStoppedRecording, autoCopyEnabled, transcript]\<close>. When one of them changed, the
  cleanup of the previous run clears its timeout and the effect runs again.
\<close>

definition deps_changed :: "session \<Rightarrow> session \<Rightarrow> bool" where
  "deps_changed old new =
     (justStoppedRecording old \<noteq> justStoppedRecording new \<or>
      autoCopyEnabled old \<noteq> autoCopyEnabled new \<or>
      transcript old \<noteq> transcript new)"

definition after_render :: "session \<Rightarrow> session \<Rightarrow> session" where
  "after_render old new =
     (if deps_changed old new then autoCopy_effect (new\<lparr>autoCopyTimer := None\<rparr>) else new)"

subsection \<open>Events\<close>

datatype event =
    EffectUnsupported
  | EffectStartThrows
  | EffectInitialized
  | TestError string
  | TestTimeout
  | RecognitionStart
  | RecognitionEnd
  | RecognitionResult speech_event
  | RecognitionError string
  | KeyDown key_event environment
  | ClickToggle environment
  | ClickCopy bool
  | ClickClear
  | SelectMethod transcription_method
  | SelectLanguage string
  | TextareaChange edit
  | SetAutoCopy bool
  | DataAvailable string
  | RecorderStop nat
  | UploadSettled nat fetch_outcome
  | AutoCopyTimeout bool
  | CopySuccessTimeout
  | Tick

text \<open>
  A recorder's stop event is delivered once, after \<^verbatim>\<open>stop()\<close>; its upload settles once,
  while \<^verbatim>\<open>onstop\<close> is waiting for it.
\<close>

definition stop_queued :: "nat \<Rightarrow> session \<Rightarrow> bool" where
  "stop_queued rid s = (rid < length (recorders s) \<and> rec_phase (recorders s ! rid) = StopQueued)"

definition uploading :: "nat \<Rightarrow> session \<Rightarrow> bool" where
  "uploading rid s =
     (rid < length (recorders s) \<and>
      (case rec_phase (recorders s ! rid) of Uploading d t \<Rightarrow> True | _ \<Rightarrow> False))"

fun handle :: "event \<Rightarrow> session \<Rightarrow> session" where
  "handle EffectUnsupported s = effect_unsupported s"
| "handle EffectStartThrows s = effect_start_throws s"
| "handle EffectInitialized s = effect_initialized s"
| "handle (TestError err) s = handleTestError err s"
| "handle TestTimeout s = testTimeout s"
| "handle RecognitionStart s = recognition_onstart s"
| "handle RecognitionEnd s = recognition_onend s"
| "handle (RecognitionResult ev) s = recognition_onresult ev s"
| "handle (RecognitionError err) s = recognition_onerror err s"
| "handle (KeyDown k env) s = handleKeyDown k env s"
| "handle (ClickToggle env) s = click_toggle env s"
| "handle (ClickCopy written) s = click_copy written s"
| "handle ClickClear s = click_clear s"
| "handle (SelectMethod m) s = select_method m s"
| "handle (SelectLanguage l) s = select_language l s"
| "handle (TextareaChange e) s = textarea_onChange e s"
| "handle (SetAutoCopy b) s = set_autoCopy b s"
| "handle (DataAvailable chunk) s = ondataavailable chunk s"
| "handle (RecorderStop rid) s = (if stop_queued rid s then onstop_begin rid s else s)"
| "handle (UploadSettled rid out) s = (if uploading rid s then onstop_settle rid out s else s)"
| "handle (AutoCopyTimeout written) s = autoCopy_timeout written s"
| "handle CopySuccessTimeout s = copySuccess_timeout s"
| "handle Tick s = tick s"

definition step :: "event \<Rightarrow> session \<Rightarrow> session" where
  "step e s = after_render s (handle e s)"

fun run :: "event list \<Rightarrow> session \<Rightarrow> session" where
  "run [] s = s"
| "run (e # es) s = run es (step e s)"

subsection \<open>Observations used to state the properties\<close>

text \<open>
  The status of the session as the page shows it: the toggle is disabled while
  \<^verbatim>\<open>isTranscribing\<close>, and reads "Stop Recording" while \<^verbatim>\<open>isListening\<close> or
  \<^verbatim>\<open>isRecording\<close>.
\<close>

datatype status = Idle | Capturing | Processing

definition status :: "session \<Rightarrow> status" where
  "status s = (if isTranscribing s then Processing
               else if isListening s \<or> isRecording s then Capturing else Idle)"

text \<open>
  The finalized and the interim text of a result batch: the transcripts of the final,
  respectively the other, results from \<^verbatim>\<open>resultIndex\<close> on, concatenated.
\<close>

definition finals_of :: "speech_event \<Rightarrow> string" where
  "finals_of ev =
     concat (map first_transcript (filter isFinal (drop (resultIndex ev) (results ev))))"

definition interims_of :: "speech_event \<Rightarrow> string" where
  "interims_of ev =
     concat (map first_transcript
       (filter (\<lambda>r. \<not> isFinal r) (drop (resultIndex ev) (results ev))))"

text \<open>
  The events that end a capture: the end event of the recognizer, and the settling of an
  upload that \<^verbatim>\<open>onstop\<close> is waiting for. Both set \<^verbatim>\<open>justStoppedRecording\<close>.
  \<open>completions\<close> counts them along a sequence of events.
\<close>

fun settles :: "event \<Rightarrow> bool" where
  "settles (UploadSettled rid out) = True"
| "settles e = False"

fun completes :: "event \<Rightarrow> session \<Rightarrow> bool" where
  "completes RecognitionEnd s = True"
| "completes (UploadSettled rid out) s = uploading rid s"
| "completes e s = False"

fun completions :: "event list \<Rightarrow> session \<Rightarrow> nat" where
  "completions [] s = 0"
| "completions (e # es) s = (if completes e s then 1 else 0) + completions es (step e s)"

text \<open>
  The auto-copy timeout fires when it is pending; \<open>autoCopy_fires\<close> counts the firings
  along a sequence of events.
\<close>

fun fires :: "event \<Rightarrow> session \<Rightarrow> bool" where
  "fires (AutoCopyTimeout written) s = (autoCopyTimer s \<noteq> None)"
| "fires e s = False"

fun autoCopy_fires :: "event list \<Rightarrow> session \<Rightarrow> nat" where
  "autoCopy_fires [] s = 0"
| "autoCopy_fires (e # es) s = (if fires e s then 1 else 0) + autoCopy_fires es (step e s)"

text \<open>
  A pending auto-copy timeout has the delay of 500 ms and was set under the effect's
  condition, which still holds.
\<close>

definition timer_guarded :: "session \<Rightarrow> bool" where
  "timer_guarded s =
     (autoCopyTimer s = None \<or>
      (autoCopyTimer s = Some 500 \<and> justStoppedRecording s \<and> autoCopyEnabled s \<and>
       trim (transcript s) \<noteq> []))"

text \<open>
  While the completion trigger \<^verbatim>\<open>justStoppedRecording\<close> is set, the auto-copy timeout is
  pending: the effect either schedules it or resets the trigger.
\<close>

definition trigger_synced :: "session \<Rightarrow> bool" where
  "trigger_synced s = (if justStoppedRecording s then autoCopyTimer s \<noteq> None else True)"

subsection \<open>Concrete inputs\<close>

definition env_granted :: environment where
  "env_granted = \<lparr>getUserMedia = None, isTypeSupported = [''audio/webm''],
     recorderError = None, recognitionStart = True, clipboardWrite = True\<rparr>"

definition ctrl_D :: key_event where
  "ctrl_D = \<lparr>ctrlKey = True, key = ''d'', code = ''KeyD''\<rparr>"

definition batch_two_finals :: speech_event where
  "batch_two_finals =
     \<lparr>results = [\<lparr>isFinal = True, first_transcript = ''a''\<rparr>,
                 \<lparr>isFinal = True, first_transcript = ''b''\<rparr>], resultIndex = 0\<rparr>"

definition batch_hello :: speech_event where
  "batch_hello = \<lparr>results = [\<lparr>isFinal = True, first_transcript = ''hello''\<rparr>], resultIndex = 0\<rparr>"

definition batch_hello_world :: speech_event where
  "batch_hello_world =
     \<lparr>results = [\<lparr>isFinal = True, first_transcript = ''hello''\<rparr>,
                 \<lparr>isFinal = False, first_transcript = ''world''\<rparr>], resultIndex = 1\<rparr>"

definition batch_hello_space :: speech_event where
  "batch_hello_space =
     \<lparr>results = [\<lparr>isFinal = True, first_transcript = ''hello ''\<rparr>], resultIndex = 0\<rparr>"

text \<open>A Live capture in progress: the recognizer was created, started and reported its start.\<close>

definition live_capturing :: session where
  "live_capturing = run [EffectInitialized, ClickToggle env_granted, RecognitionStart] initial"

definition space_key :: key_event where
  "space_key = \<lparr>ctrlKey = False, key = '' '', code = ''Space''\<rparr>"

text \<open>The backend switched to OpenAI while the Live capture is running.\<close>

definition live_then_batch_selected :: session where
  "live_then_batch_selected = step (SelectMethod Aiml) live_capturing"

text \<open>
  A Batch capture in progress with auto-copy enabled; the same after the toggle stopped
  it and the last chunk arrived; and the same once \<^verbatim>\<open>onstop\<close> awaits the transcription.
\<close>

definition batch_recording :: session where
  "batch_recording = run [EffectInitialized, SetAutoCopy True, SelectMethod Aiml, ClickToggle env_granted] initial"

definition batch_stopped :: session where
  "batch_stopped = run [ClickToggle env_granted, DataAvailable ''RIFF''] batch_recording"

definition batch_uploading :: session where
  "batch_uploading = run [ClickToggle env_granted, DataAvailable ''RIFF'', RecorderStop 0] batch_recording"

text \<open>The user types an exclamation mark after the eleven characters shown.\<close>

definition typed_at_end :: edit where
  "typed_at_end = \<lparr>at = 11, removed = 0, inserted = ''!''\<rparr>"

text \<open>
  From the initial session to a pending upload: auto-copy is enabled, the OpenAI method
  selected, \<open>hi\<close> typed into the text area, a Batch capture started and stopped, and
  the stop event delivered.
\<close>

definition typed_hi :: edit where
  "typed_hi = \<lparr>at = 0, removed = 0, inserted = ''hi''\<rparr>"

definition upload_pending_trace :: "event list" where
  "upload_pending_trace =
     [EffectInitialized, SetAutoCopy True, SelectMethod Aiml, TextareaChange typed_hi,
      ClickToggle env_granted, ClickToggle env_granted, DataAvailable ''RIFF'', RecorderStop 0]"

section \<open>Properties\<close>

subsection \<open>Shared lemmas\<close>

lemmas all_defs = handler_defs recognition_onresult_def handleKeyDown_def onstop_settle_def
  textarea_onChange_def autoCopy_timeout_def transcribeWithWhisper_settle_def whisper_try_def
  whisper_catch_def whisper_finally_def stop_queued_def uploading_def

lemmas concrete_defs = initial_def env_granted_def live_capturing_def step_def
  after_render_def deps_changed_def Let_def

lemmas example_defs = batch_recording_def batch_uploading_def batch_stopped_def
  live_then_batch_selected_def space_key_def typed_at_end_def batch_hello_def
  batch_hello_world_def autoCopy_effect_def trim_def js_whitespace_def supportedTypes_def

lemma after_render_frame:
  "isListening (after_render a b) = isListening b"
  "transcript (after_render a b) = transcript b"
  "interimTranscript (after_render a b) = interimTranscript b"
  "selectedLanguage (after_render a b) = selectedLanguage b"
  "isSupported (after_render a b) = isSupported b"
  "error (after_render a b) = error b"
  "copySuccess (after_render a b) = copySuccess b"
  "isTranscribing (after_render a b) = isTranscribing b"
  "transcriptionMethod (after_render a b) = transcriptionMethod b"
  "isRecording (after_render a b) = isRecording b"
  "recordingTime (after_render a b) = recordingTime b"
  "autoCopyEnabled (after_render a b) = autoCopyEnabled b"
  "recognitionRef (after_render a b) = recognitionRef b"
  "mediaRecorderRef (after_render a b) = mediaRecorderRef b"
  "audioChunksRef (after_render a b) = audioChunksRef b"
  "streamRef (after_render a b) = streamRef b"
  "timerRef (after_render a b) = timerRef b"
  "streams (after_render a b) = streams b"
  "recorders (after_render a b) = recorders b"
  "clipboard (after_render a b) = clipboard b"
  "console (after_render a b) = console b"
  by (simp_all add: after_render_def autoCopy_effect_def)

lemma after_render_same: "after_render s s = s"
  by (simp add: after_render_def deps_changed_def)

lemma onresult_loop_concat:
  "onresult_loop rs (f, i) =
     (f @ concat (map first_transcript (filter isFinal rs)),
      i @ concat (map first_transcript (filter (\<lambda>r. \<not> isFinal r) rs)))"
  by (induction rs arbitrary: f i) simp_all

text \<open>What the handlers behind the shortcuts leave alone.\<close>

lemma copy_frame:
  "transcript (copyToClipboard w x) = transcript x"
  "streams (copyToClipboard w x) = streams x"
  "recorders (copyToClipboard w x) = recorders x"
  by (simp_all add: copyToClipboard_def)

lemma clear_frame:
  "streams (clearTranscript x) = streams x"
  "recorders (clearTranscript x) = recorders x"
  by (simp_all add: clearTranscript_def)

lemma stop_frame:
  "streams (stopListening x) = streams x"
  "recorders (stopListening x) = recorders x"
  "streams (stopWhisperRecording x) = streams x"
  "length (recorders (stopWhisperRecording x)) = length (recorders x)"
  by (simp_all add: stopListening_def stopWhisperRecording_def stopTimer_def set_phase_def
        split: option.splits)

lemma toggle_transcript: "transcript (toggle env r x) = transcript x"
  by (simp add: toggle_def startListening_def stopListening_def startWhisperRecording_def
        stopWhisperRecording_def startTimer_def stopTimer_def set_phase_def is_recording_def
        Let_def split: option.splits)

lemma handleKeyDown_transcript:
  "transcript (handleKeyDown k env s) =
     (if ctrlKey k \<and> key k = ''d'' \<and> transcript s \<noteq> [] then [] else transcript s)"
  by (simp add: handleKeyDown_def Let_def toggle_transcript copy_frame clearTranscript_def)

text \<open>
  Once Web Speech is marked unsupported with the OpenAI method selected, no event
  changes either: nothing sets \<^verbatim>\<open>isSupported\<close> back, and the only call of
  \<^verbatim>\<open>setTranscriptionMethod('web-api')\<close> sits behind the disabled radio input.
\<close>

lemma handle_keeps_unsupported:
  "\<not> isSupported s \<Longrightarrow> transcriptionMethod s = Aiml \<Longrightarrow>
   \<not> isSupported (handle e s) \<and> transcriptionMethod (handle e s) = Aiml"
  by (cases e)
     (auto simp add: all_defs Let_def
        split: option.splits prod.splits fetch_outcome.splits json_body.splits
        intro: transcription_method.exhaust)

lemma step_keeps_unsupported:
  "\<not> isSupported s \<Longrightarrow> transcriptionMethod s = Aiml \<Longrightarrow>
   \<not> isSupported (step e s) \<and> transcriptionMethod (step e s) = Aiml"
  using handle_keeps_unsupported [of s e] by (simp add: step_def after_render_frame)

lemma run_keeps_unsupported:
  "\<not> isSupported s \<Longrightarrow> transcriptionMethod s = Aiml \<Longrightarrow>
   \<not> isSupported (run evs s) \<and> transcriptionMethod (run evs s) = Aiml"
proof (induction evs arbitrary: s)
  case Nil
  then show ?case by simp
next
  case (Cons e evs)
  from step_keeps_unsupported [OF Cons.prems] Cons.IH [of "step e s"]
  show ?case by simp
qed

subsection \<open>Live result batches\<close>

text \<open>
  C1, as the claim states it, fails: the page does not put a space after each finalized
  segment. Two finalized segments \<open>a\<close> and \<open>b\<close> in one batch are appended as
  \<open>ab\<close> and one space, not as \<open>a\<close>, space, \<open>b\<close>, space; and a finalized segment
  that already ends in a space, as in the scenario's \<open>hello\<close> with a trailing space,
  ends up with two.
\<close>

theorem onresult_space_per_segment_counterexample:
  "transcript (recognition_onresult batch_two_finals initial) = ''ab '' \<and>
   transcript (recognition_onresult batch_two_finals initial) \<noteq> ''a '' @ ''b '' \<and>
   transcript (recognition_onresult batch_hello_space initial) = ''hello  '' \<and>
   transcript (recognition_onresult batch_hello_space initial) \<noteq> ''hello ''"
  by (simp add: recognition_onresult_def batch_two_finals_def batch_hello_space_def initial_def)

text \<open>
  C1, amended: for every Live result batch, the finalized segments of the batch (from
  \<^verbatim>\<open>resultIndex\<close> on) are concatenated and, when the concatenation is not empty,
  appended to the transcript followed by one space for the whole batch; nothing is
  appended otherwise. The concatenation of the batch's interim segments (the empty string
  if there is none) replaces the interim text, and nothing else changes. After the batch
  with the finalized segment \<open>hello\<close> and then the batch adding the interim segment
  \<open>world\<close>, from the empty transcript, the transcript is \<open>hello\<close> with one trailing
  space and the interim text is \<open>world\<close>.
\<close>

theorem onresult_appends_batch:
  "recognition_onresult ev s =
     s\<lparr>transcript := (if finals_of ev = [] then transcript s
                       else transcript s @ finals_of ev @ '' ''),
       interimTranscript := interims_of ev\<rparr> \<and>
   transcript (recognition_onresult batch_hello_world
                 (recognition_onresult batch_hello initial)) = ''hello '' \<and>
   interimTranscript (recognition_onresult batch_hello_world
                        (recognition_onresult batch_hello initial)) = ''world''"
  by (simp add: recognition_onresult_def onresult_loop_concat finals_of_def interims_of_def
        batch_hello_def batch_hello_world_def initial_def)

theorem onresult_appends_batch_witness:
  "transcript (recognition_onresult batch_two_finals (initial\<lparr>transcript := ''x ''\<rparr>)) = ''x ab '' \<and>
   interimTranscript (recognition_onresult batch_hello_world initial) = ''world''"
  using onresult_appends_batch [of batch_two_finals "initial\<lparr>transcript := ''x ''\<rparr>"]
        onresult_appends_batch [of batch_hello_world initial]
  by (simp add: finals_of_def interims_of_def batch_two_finals_def batch_hello_world_def
        initial_def)

subsection \<open>Switching the backend\<close>

text \<open>
  C3, as the claim states it, fails: while a Live capture is running (status Capturing),
  selecting the OpenAI method changes the active backend.
\<close>

theorem backend_switch_while_capturing_counterexample:
  "status live_capturing = Capturing \<and> transcriptionMethod live_capturing = WebApi \<and>
   transcriptionMethod (step (SelectMethod Aiml) live_capturing) \<noteq>
     transcriptionMethod live_capturing"
  by (simp add: status_def concrete_defs all_defs)

text \<open>
  C3, amended: changing the active backend is permitted in every status (Idle, Capturing
  or Processing). Selecting the OpenAI method always makes it the active backend;
  selecting Web Speech makes it the active backend whenever Web Speech is still marked
  supported and is ignored otherwise (the radio input is disabled). The selection leaves
  the status as it was.
\<close>

theorem backend_switch_not_gated_on_status:
  "transcriptionMethod (step (SelectMethod Aiml) s) = Aiml \<and>
   transcriptionMethod (step (SelectMethod WebApi) s) =
     (if isSupported s then WebApi else transcriptionMethod s) \<and>
   status (step (SelectMethod m) s) = status s"
  by (simp add: step_def after_render_frame select_method_def status_def)

theorem backend_switch_not_gated_on_status_witness:
  "transcriptionMethod (step (SelectMethod Aiml) live_capturing) = Aiml \<and>
   status (step (SelectMethod Aiml) live_capturing) = Capturing"
  using backend_switch_not_gated_on_status [of live_capturing Aiml]
  by (simp add: status_def concrete_defs all_defs)

subsection \<open>Errors of the Live recognizer\<close>

text \<open>
  C5: on an error event of the Live recognizer, \<open>not-allowed\<close> sets the
  permission-denied message and \<open>no-speech\<close> the advisory message, both without a
  change of backend; \<open>network\<close> and \<open>service-not-allowed\<close> set their message and
  make the OpenAI method the active backend, and it stays the active backend after any
  sequence of further events (Web Speech cannot be selected again); any other code sets
  the generic message without a change of backend.
\<close>

theorem live_error_classification:
  "error (step (RecognitionError ''not-allowed'') s) =
     ''Microphone access denied. Please allow microphone access and try again.'' \<and>
   transcriptionMethod (step (RecognitionError ''not-allowed'') s) = transcriptionMethod s \<and>
   isSupported (step (RecognitionError ''not-allowed'') s) = isSupported s \<and>
   error (step (RecognitionError ''no-speech'') s) =
     ''No speech detected. Please try speaking again.'' \<and>
   transcriptionMethod (step (RecognitionError ''no-speech'') s) = transcriptionMethod s \<and>
   isSupported (step (RecognitionError ''no-speech'') s) = isSupported s \<and>
   error (step (RecognitionError ''network'') s) =
     ''Web Speech is unavailable in this browser or region. Switched to OpenAI transcription.'' \<and>
   transcriptionMethod (run evs (step (RecognitionError ''network'') s)) = Aiml \<and>
   error (step (RecognitionError ''service-not-allowed'') s) =
     ''Web Speech is not allowed. Switched to OpenAI transcription.'' \<and>
   transcriptionMethod (run evs (step (RecognitionError ''service-not-allowed'') s)) = Aiml \<and>
   (err \<notin> {''not-allowed'', ''no-speech'', ''network'', ''service-not-allowed''} \<longrightarrow>
      error (step (RecognitionError err) s) =
        ''Speech recognition error: '' @ err @ ''. Try using OpenAI transcription instead.'' \<and>
      transcriptionMethod (step (RecognitionError err) s) = transcriptionMethod s \<and>
      isSupported (step (RecognitionError err) s) = isSupported s)"
proof -
  have net: "\<not> isSupported (step (RecognitionError ''network'') s) \<and>
             transcriptionMethod (step (RecognitionError ''network'') s) = Aiml"
    by (simp add: step_def after_render_frame recognition_onerror_def)
  have sna: "\<not> isSupported (step (RecognitionError ''service-not-allowed'') s) \<and>
             transcriptionMethod (step (RecognitionError ''service-not-allowed'') s) = Aiml"
    by (simp add: step_def after_render_frame recognition_onerror_def)
  have a: "transcriptionMethod (run evs (step (RecognitionError ''network'') s)) = Aiml"
    using run_keeps_unsupported net by blast
  have b: "transcriptionMethod (run evs (step (RecognitionError ''service-not-allowed'') s)) = Aiml"
    using run_keeps_unsupported sna by blast
  show ?thesis
    using a b by (simp add: step_def after_render_frame recognition_onerror_def)
qed

theorem live_error_classification_witness:
  "transcriptionMethod live_capturing = WebApi \<and>
   transcriptionMethod (run [SelectMethod WebApi, ClickToggle env_granted]
      (step (RecognitionError ''network'') live_capturing)) = Aiml \<and>
   error (step (RecognitionError ''aborted'') live_capturing) =
     ''Speech recognition error: aborted. Try using OpenAI transcription instead.'' \<and>
   transcriptionMethod (step (RecognitionError ''aborted'') live_capturing) = WebApi"
  using live_error_classification
    [of live_capturing "[SelectMethod WebApi, ClickToggle env_granted]" "''aborted''"]
  by (simp add: concrete_defs all_defs)

subsection \<open>Auto-copy\<close>

text \<open>
  No handler sets the auto-copy timeout; only the effect does, after a render in which
  one of its dependencies changed. So a pending timeout always stands under the effect's
  condition.
\<close>

lemma handle_timer:
  "autoCopyTimer (handle e s) = autoCopyTimer s \<or> autoCopyTimer (handle e s) = None"
  by (cases e)
     (simp_all add: all_defs Let_def
        split: option.splits prod.splits fetch_outcome.splits json_body.splits)

lemma step_timer_guarded: "timer_guarded s \<Longrightarrow> timer_guarded (step e s)"
proof (cases "deps_changed s (handle e s)")
  case True
  then show ?thesis
    by (simp add: step_def after_render_def autoCopy_effect_def timer_guarded_def)
next
  case False
  assume g: "timer_guarded s"
  from False have eq: "justStoppedRecording (handle e s) = justStoppedRecording s"
      "autoCopyEnabled (handle e s) = autoCopyEnabled s" "transcript (handle e s) = transcript s"
    by (simp_all add: deps_changed_def)
  from False have "step e s = handle e s" by (simp add: step_def after_render_def)
  with g eq handle_timer [of e s] show ?thesis
    by (auto simp add: timer_guarded_def)
qed

lemma run_timer_guarded: "timer_guarded s \<Longrightarrow> timer_guarded (run evs s)"
  by (induction evs arbitrary: s) (simp_all add: step_timer_guarded)

lemma initial_timer_guarded: "timer_guarded initial"
  by (simp add: timer_guarded_def initial_def)

text \<open>
  Only a capture completion sets \<^verbatim>\<open>justStoppedRecording\<close>, and a firing timeout
  resets it.
\<close>

lemma after_render_flag: "justStoppedRecording (after_render a b) \<Longrightarrow> justStoppedRecording b"
  by (simp add: after_render_def autoCopy_effect_def split: if_splits)

lemma handle_flag:
  "justStoppedRecording (handle e s) \<Longrightarrow> justStoppedRecording s \<or> completes e s"
  by (cases e)
     (simp_all add: all_defs Let_def
        split: option.splits prod.splits fetch_outcome.splits json_body.splits if_splits)

lemma step_flag:
  "justStoppedRecording (step e s) \<Longrightarrow> justStoppedRecording s \<or> completes e s"
  using after_render_flag handle_flag by (auto simp add: step_def)

lemma fire_consumes_flag:
  "fires e s \<Longrightarrow> \<not> justStoppedRecording (step e s)"
  by (cases e)
     (auto simp add: step_def after_render_def autoCopy_effect_def autoCopy_timeout_def
        copyToClipboard_def deps_changed_def)

lemma fires_not_completes: "fires e s \<Longrightarrow> \<not> completes e s"
  by (cases e) simp_all

lemma fires_le_completions:
  "timer_guarded s \<Longrightarrow>
   autoCopy_fires evs s \<le> completions evs s + (if justStoppedRecording s then 1 else 0)"
proof (induction evs arbitrary: s)
  case Nil
  then show ?case by simp
next
  case (Cons e evs)
  have g: "timer_guarded (step e s)" using Cons.prems by (rule step_timer_guarded)
  note ih = Cons.IH [OF g]
  show ?case
  proof (cases "fires e s")
    case True
    then have f: "justStoppedRecording s"
      using Cons.prems by (cases e) (auto simp add: timer_guarded_def)
    from True have "\<not> justStoppedRecording (step e s)" by (rule fire_consumes_flag)
    with ih True f fires_not_completes [OF True] show ?thesis by simp
  next
    case False
    with ih step_flag [of e s] show ?thesis by (auto split: if_splits)
  qed
qed

lemma timer_delay:
  "timer_guarded s \<Longrightarrow> autoCopyTimer s = None \<or> autoCopyTimer s = Some 500"
  by (auto simp add: timer_guarded_def)

lemma trim_nonempty: "trim v \<noteq> [] \<Longrightarrow> v \<noteq> []"
  by (auto simp add: trim_def)

lemma completion_keeps_clipboard: "completes e s \<Longrightarrow> clipboard (step e s) = clipboard s"
  by (cases e)
     (simp_all add: step_def after_render_frame all_defs
        split: option.splits prod.splits fetch_outcome.splits json_body.splits)

lemma autoCopy_timeout_clipboard:
  "clipboard (step (AutoCopyTimeout written) s) =
     (if autoCopyTimer s \<noteq> None \<and> written then transcript s else clipboard s)"
  by (simp add: step_def after_render_frame autoCopy_timeout_def copyToClipboard_def
        split: option.splits)

lemma autoCopy_timeout_failure:
  "step (AutoCopyTimeout False) s =
     (if autoCopyTimer s = None then s
      else s\<lparr>console := console s @ [''Failed to copy to clipboard:''],
             justStoppedRecording := False, autoCopyTimer := None\<rparr>)"
  by (auto simp add: step_def after_render_def deps_changed_def autoCopy_effect_def
        autoCopy_timeout_def copyToClipboard_def split: option.splits)

text \<open>
  C8: the auto-copy is debounced: a capture completion does not write the clipboard, it
  leaves a timeout of 500 ms, and the copy happens when the timeout fires. Along every
  sequence of events from the initial session the timeout fires at most as often as
  captures complete. A firing changes the clipboard only when auto-copy is enabled and
  the transcript is not empty, and then the clipboard holds the transcript. A failed
  clipboard write only logs to the console: \<^verbatim>\<open>copyToClipboard\<close> changes nothing else,
  and the firing timeout besides resets the trigger as it does on success; the error
  message, the transcript and the clipboard stay as they were.
\<close>

theorem autocopy_debounced_once_guarded:
  "(autoCopyTimer (run evs initial) = None \<or> autoCopyTimer (run evs initial) = Some 500) \<and>
   (completes e s \<longrightarrow> clipboard (step e s) = clipboard s) \<and>
   autoCopy_fires evs initial \<le> completions evs initial \<and>
   (clipboard (step (AutoCopyTimeout written) (run evs initial)) \<noteq> clipboard (run evs initial) \<longrightarrow>
      autoCopyEnabled (run evs initial) \<and> transcript (run evs initial) \<noteq> [] \<and>
      clipboard (step (AutoCopyTimeout written) (run evs initial)) = transcript (run evs initial)) \<and>
   copyToClipboard False s = s\<lparr>console := console s @ [''Failed to copy to clipboard:'']\<rparr> \<and>
   step (AutoCopyTimeout False) s =
     (if autoCopyTimer s = None then s
      else s\<lparr>console := console s @ [''Failed to copy to clipboard:''],
             justStoppedRecording := False, autoCopyTimer := None\<rparr>)"
proof -
  let ?r = "run evs initial"
  have g: "timer_guarded ?r"
    using initial_timer_guarded by (rule run_timer_guarded)
  have c1: "autoCopyTimer ?r = None \<or> autoCopyTimer ?r = Some 500"
    using g by (rule timer_delay)
  have c2: "completes e s \<longrightarrow> clipboard (step e s) = clipboard s"
    by (simp add: completion_keeps_clipboard)
  have c3: "autoCopy_fires evs initial \<le> completions evs initial"
    using fires_le_completions [OF initial_timer_guarded, of evs] by (simp add: initial_def)
  have c4: "clipboard (step (AutoCopyTimeout written) ?r) \<noteq> clipboard ?r \<longrightarrow>
      autoCopyEnabled ?r \<and> transcript ?r \<noteq> [] \<and>
      clipboard (step (AutoCopyTimeout written) ?r) = transcript ?r"
    using g trim_nonempty [of "transcript ?r"]
    by (auto simp add: autoCopy_timeout_clipboard timer_guarded_def split: if_splits)
  have c5: "copyToClipboard False s = s\<lparr>console := console s @ [''Failed to copy to clipboard:'']\<rparr>"
    by (simp add: copyToClipboard_def)
  from c1 c2 c3 c4 c5 autoCopy_timeout_failure [of s] show ?thesis by blast
qed

theorem autocopy_debounced_once_guarded_witness:
  "completes RecognitionEnd initial \<and>
   autoCopyTimer (run [EffectInitialized, SetAutoCopy True, ClickToggle env_granted, RecognitionStart,
      RecognitionResult batch_hello, RecognitionEnd] initial) = Some 500 \<and>
   clipboard (run [EffectInitialized, SetAutoCopy True, ClickToggle env_granted, RecognitionStart,
      RecognitionResult batch_hello, RecognitionEnd] initial) = [] \<and>
   clipboard (step (AutoCopyTimeout True) (run [EffectInitialized, SetAutoCopy True,
      ClickToggle env_granted, RecognitionStart, RecognitionResult batch_hello, RecognitionEnd]
      initial)) = ''hello '' \<and>
   autoCopyEnabled (run [EffectInitialized, SetAutoCopy True, ClickToggle env_granted,
      RecognitionStart, RecognitionResult batch_hello, RecognitionEnd] initial)"
  using autocopy_debounced_once_guarded
    [of "[EffectInitialized, SetAutoCopy True, ClickToggle env_granted, RecognitionStart,
          RecognitionResult batch_hello, RecognitionEnd]" RecognitionEnd initial True]
  by (simp add: concrete_defs all_defs example_defs)

subsection \<open>The outcome of a Batch transcription\<close>

lemma handle_processing:
  "isTranscribing s \<Longrightarrow> \<not> settles e \<Longrightarrow> isTranscribing (handle e s)"
  by (cases e)
     (simp_all add: all_defs Let_def
        split: option.splits prod.splits fetch_outcome.splits json_body.splits)

lemma run_processing:
  "isTranscribing s \<Longrightarrow> \<forall>e \<in> set evs. \<not> settles e \<Longrightarrow> isTranscribing (run evs s)"
  by (induction evs arbitrary: s) (simp_all add: handle_processing step_def after_render_frame)

lemma settle_fields:
  assumes "uploading rid s"
  shows "isTranscribing (handle (UploadSettled rid out) s) = False"
    and "justStoppedRecording (handle (UploadSettled rid out) s) = True"
    and "isListening (handle (UploadSettled rid out) s) = isListening s"
    and "isRecording (handle (UploadSettled rid out) s) = isRecording s"
    and "autoCopyEnabled (handle (UploadSettled rid out) s) = autoCopyEnabled s"
    and "transcript (handle (UploadSettled rid out) s) =
           (case out of ResponseOk (JsonValue text) \<Rightarrow>
              (if transcript s = [] then text else transcript s @ [CHR 0x0A, CHR 0x0A] @ text)
            | _ \<Rightarrow> transcript s)"
  using assms
  by (simp_all add: all_defs split: option.splits prod.splits fetch_outcome.splits json_body.splits)

lemma settle_error:
  assumes "uploading rid s"
  shows "error (handle (UploadSettled rid out) s) =
           (case out of
              FetchRejects m \<Rightarrow> ''Transcription error: '' @ m
            | ResponseNotOk (JsonRejects m) \<Rightarrow> ''Transcription error: '' @ m
            | ResponseNotOk (JsonValue None) \<Rightarrow> ''Transcription error: Error in transcription''
            | ResponseNotOk (JsonValue (Some msg)) \<Rightarrow>
                ''Transcription error: '' @ (if msg = [] then ''Error in transcription'' else msg)
            | ResponseOk (JsonRejects m) \<Rightarrow> ''Transcription error: '' @ m
            | ResponseOk (JsonValue text) \<Rightarrow> error s)"
  using assms
  by (simp_all add: all_defs split: option.splits prod.splits fetch_outcome.splits json_body.splits)

text \<open>
  On every session reached from the initial one, a set trigger comes with a pending
  timeout, so the timeout after a settling upload is decided by the effect's condition
  alone.
\<close>

lemma handle_timer_or_reset:
  "autoCopyTimer (handle e s) = autoCopyTimer s \<or> \<not> justStoppedRecording (handle e s)"
  by (cases e)
     (simp_all add: all_defs Let_def
        split: option.splits prod.splits fetch_outcome.splits json_body.splits)

lemma step_trigger_synced:
  assumes "timer_guarded s" and "trigger_synced s"
  shows "trigger_synced (step e s)"
proof (cases "deps_changed s (handle e s)")
  case True
  then show ?thesis
    by (simp add: step_def after_render_def autoCopy_effect_def trigger_synced_def)
next
  case False
  then have eq: "justStoppedRecording (handle e s) = justStoppedRecording s"
    by (simp add: deps_changed_def)
  from False have st: "step e s = handle e s" by (simp add: step_def after_render_def)
  from assms(2) eq handle_timer_or_reset [of e s] show ?thesis
    by (auto simp add: st trigger_synced_def split: if_splits)
qed

lemma run_trigger_synced:
  "timer_guarded s \<Longrightarrow> trigger_synced s \<Longrightarrow> trigger_synced (run evs s)"
  by (induction evs arbitrary: s) (simp_all add: step_timer_guarded step_trigger_synced)

lemma initial_trigger_synced: "trigger_synced initial"
  by (simp add: trigger_synced_def initial_def)

lemma settle_keeps_timer:
  "autoCopyTimer (handle (UploadSettled rid out) s) = autoCopyTimer s"
  by (simp add: all_defs split: option.splits prod.splits fetch_outcome.splits json_body.splits)

lemma settle_timer_reachable:
  assumes "uploading rid s" and "timer_guarded s" and "trigger_synced s"
  shows "autoCopyTimer (step (UploadSettled rid out) s) =
           (if autoCopyEnabled s \<and> trim (transcript (step (UploadSettled rid out) s)) \<noteq> []
            then Some 500 else None)"
proof (cases "deps_changed s (handle (UploadSettled rid out) s)")
  case True
  then show ?thesis
    using settle_fields(2,5) [OF assms(1), of out]
    by (simp add: step_def after_render_def autoCopy_effect_def)
next
  case False
  then have eq: "justStoppedRecording s" "transcript (handle (UploadSettled rid out) s) = transcript s"
    using settle_fields(2) [OF assms(1), of out] by (simp_all add: deps_changed_def)
  from False have st: "step (UploadSettled rid out) s = handle (UploadSettled rid out) s"
    by (simp add: step_def after_render_def)
  from eq(1) assms(2,3) have "autoCopyTimer s = Some 500 \<and> autoCopyEnabled s \<and> trim (transcript s) \<noteq> []"
    by (auto simp add: timer_guarded_def trigger_synced_def)
  then show ?thesis
    unfolding st using settle_keeps_timer [of rid out s] eq(2)
    by (simp del: handle.simps)
qed

text \<open>
  C7, as the claim states it, fails in its last part: the auto-copy is not scheduled for
  every non-empty transcript. With auto-copy enabled and an empty transcript, a
  transcription that resolves with a single space leaves the transcript non-empty and the
  session Idle, but no timeout is pending, the trigger has been reset, and a timeout
  event arriving afterwards does not copy.
\<close>

theorem autocopy_whitespace_transcript_counterexample:
  "uploading 0 batch_uploading \<and>
   autoCopyEnabled (step (UploadSettled 0 (ResponseOk (JsonValue '' ''))) batch_uploading) \<and>
   transcript (step (UploadSettled 0 (ResponseOk (JsonValue '' ''))) batch_uploading) \<noteq> [] \<and>
   status (step (UploadSettled 0 (ResponseOk (JsonValue '' ''))) batch_uploading) = Idle \<and>
   autoCopyTimer (step (UploadSettled 0 (ResponseOk (JsonValue '' ''))) batch_uploading) = None \<and>
   \<not> justStoppedRecording (step (UploadSettled 0 (ResponseOk (JsonValue '' ''))) batch_uploading) \<and>
   clipboard (run [UploadSettled 0 (ResponseOk (JsonValue '' '')), AutoCopyTimeout True]
                batch_uploading) \<noteq> '' ''"
  by (simp add: status_def concrete_defs all_defs example_defs)

text \<open>
  C7, amended: once the stop event of a stopped recorder has been delivered, the status is
  Processing, and it stays Processing under every event other than the settling of a
  transcription call. When the call of a pending upload settles, in any session reached
  from the initial one: on resolution the returned text is appended to the transcript,
  after a blank line if and only if the transcript is not empty (an empty transcript
  becomes exactly the text), and the error message stays; on rejection the error message
  is set from the failure and the transcript stays; in both outcomes
  \<^verbatim>\<open>isTranscribing\<close> is false again, so that the status is Idle provided no capture is
  running at that moment, and the auto-copy timeout of 500 ms is scheduled if and only
  if auto-copy is enabled and the transcript is not empty after trimming white space.
\<close>

theorem batch_transcription_outcome:
  assumes "stop_queued rid0 s0" and "\<forall>e \<in> set evs. \<not> settles e"
    and "s = run pre initial" and "uploading rid s"
  shows "status (run evs (step (RecorderStop rid0) s0)) = Processing \<and>
    transcript (step (UploadSettled rid (ResponseOk (JsonValue text))) s) =
      (if transcript s = [] then text else transcript s @ [CHR 0x0A, CHR 0x0A] @ text) \<and>
    error (step (UploadSettled rid (ResponseOk (JsonValue text))) s) = error s \<and>
    error (step (UploadSettled rid (FetchRejects m)) s) = ''Transcription error: '' @ m \<and>
    error (step (UploadSettled rid (ResponseNotOk (JsonRejects m))) s) =
      ''Transcription error: '' @ m \<and>
    error (step (UploadSettled rid (ResponseNotOk (JsonValue None))) s) =
      ''Transcription error: Error in transcription'' \<and>
    error (step (UploadSettled rid (ResponseNotOk (JsonValue (Some msg)))) s) =
      ''Transcription error: '' @ (if msg = [] then ''Error in transcription'' else msg) \<and>
    error (step (UploadSettled rid (ResponseOk (JsonRejects m))) s) =
      ''Transcription error: '' @ m \<and>
    ((\<forall>t. out \<noteq> ResponseOk (JsonValue t)) \<longrightarrow>
       transcript (step (UploadSettled rid out) s) = transcript s) \<and>
    \<not> isTranscribing (step (UploadSettled rid out) s) \<and>
    status (step (UploadSettled rid out) s) =
      (if isListening s \<or> isRecording s then Capturing else Idle) \<and>
    autoCopyTimer (step (UploadSettled rid out) s) =
      (if autoCopyEnabled s \<and> trim (transcript (step (UploadSettled rid out) s)) \<noteq> []
       then Some 500 else None)"
proof -
  have "isTranscribing (step (RecorderStop rid0) s0)"
    using assms(1) by (simp add: step_def after_render_frame onstop_begin_def
        transcribeWithWhisper_begin_def set_phase_def)
  then have p: "status (run evs (step (RecorderStop rid0) s0)) = Processing"
    using run_processing [OF _ assms(2)] by (simp add: status_def)
  have t: "(\<forall>t. out \<noteq> ResponseOk (JsonValue t)) \<longrightarrow>
       transcript (step (UploadSettled rid out) s) = transcript s"
    using settle_fields(6) [OF assms(4), of out]
    by (auto simp add: step_def after_render_frame split: fetch_outcome.splits json_body.splits)
  have n: "\<not> isTranscribing (step (UploadSettled rid out) s)"
    using settle_fields(1) [OF assms(4), of out] by (simp add: step_def after_render_frame)
  have i: "status (step (UploadSettled rid out) s) =
             (if isListening s \<or> isRecording s then Capturing else Idle)"
    using settle_fields(1,3,4) [OF assms(4), of out]
    by (simp add: status_def step_def after_render_frame)
  have g: "timer_guarded s" "trigger_synced s"
    unfolding assms(3)
    using initial_timer_guarded initial_trigger_synced
    by (simp_all add: run_timer_guarded run_trigger_synced)
  have e: "\<And>x. error (step (UploadSettled rid x) s) = error (handle (UploadSettled rid x) s)"
    by (simp add: step_def after_render_frame)
  have tr: "\<And>x. transcript (step (UploadSettled rid x) s) =
                    transcript (handle (UploadSettled rid x) s)"
    by (simp add: step_def after_render_frame)
  note errs = settle_error [OF assms(4), folded e]
  note trs = settle_fields(6) [OF assms(4), folded tr]
  show ?thesis
    using p t n i settle_timer_reachable [OF assms(4) g, of out]
    by (simp add: errs trs)
qed

theorem batch_transcription_outcome_witness:
  "stop_queued 0 batch_stopped \<and>
   \<not> settles (DataAvailable ''x'') \<and> \<not> settles (ClickToggle env_granted) \<and>
   \<not> settles (KeyDown space_key env_granted) \<and>
   uploading 0 (run upload_pending_trace initial) \<and>
   status (run [DataAvailable ''x'', ClickToggle env_granted, KeyDown space_key env_granted]
             (step (RecorderStop 0) batch_stopped)) = Processing \<and>
   transcript (run upload_pending_trace initial) = ''hi'' \<and>
   transcript (step (UploadSettled 0 (ResponseOk (JsonValue ''there'')))
                 (run upload_pending_trace initial)) = ''hi'' @ [CHR 0x0A, CHR 0x0A] @ ''there'' \<and>
   status (step (UploadSettled 0 (FetchRejects ''Failed to fetch''))
             (run upload_pending_trace initial)) = Idle \<and>
   autoCopyTimer (step (UploadSettled 0 (FetchRejects ''Failed to fetch''))
             (run upload_pending_trace initial)) = Some 500"
  using batch_transcription_outcome
    [of 0 batch_stopped "[DataAvailable ''x'', ClickToggle env_granted, KeyDown space_key env_granted]"
        "run upload_pending_trace initial" upload_pending_trace 0 "''there''" "''Failed to fetch''" "[]"
        "FetchRejects ''Failed to fetch''"]
  by (simp add: status_def concrete_defs all_defs example_defs upload_pending_trace_def
        typed_hi_def textarea_value_def apply_edit_def)

subsection \<open>Releasing the microphone after a Batch capture\<close>

lemma stop_then_upload:
  assumes "transcriptionMethod s = Aiml" and "isRecording s" and "\<not> isTranscribing s"
    and "mediaRecorderRef s = Some rid" and "rid < length (recorders s)"
    and "rec_phase (recorders s ! rid) = Recording"
  shows "streams (run [ClickToggle env, DataAvailable chunk, RecorderStop rid] s) = streams s"
    and "uploading rid (run [ClickToggle env, DataAvailable chunk, RecorderStop rid] s)"
    and "rec_stream (recorders (run [ClickToggle env, DataAvailable chunk, RecorderStop rid] s) ! rid)
           = rec_stream (recorders s ! rid)"
  using assms
  by (simp_all add: step_def after_render_frame all_defs)

lemma settle_releases:
  assumes "uploading rid s"
  shows "streams (step (UploadSettled rid out) s) =
           (streams s)[rec_stream (recorders s ! rid) := Suc (streams s ! rec_stream (recorders s ! rid))]"
    and "streamRef (step (UploadSettled rid out) s) = None"
    and "\<not> uploading rid (step (UploadSettled rid out) s)"
  using assms
  by (simp_all add: step_def after_render_frame all_defs
        split: option.splits prod.splits fetch_outcome.splits json_body.splits)

lemma settle_ignored:
  "\<not> uploading rid s \<Longrightarrow> step (UploadSettled rid out) s = s"
  by (simp add: step_def after_render_same)

text \<open>
  C6: stopping a Batch capture releases its microphone stream exactly once, whatever the
  outcome of the transcription. From a session that is recording with recorder \<open>rid\<close>
  on stream \<open>sid\<close>: the toggle stops the recorder, the last chunk and the stop event
  arrive, and the stream is still held while the transcription is awaited; when the
  transcription settles, with any outcome, the tracks of the stream have been stopped
  once more than before, no other stream is touched and \<^verbatim>\<open>streamRef\<close> is cleared; a
  second settling event for the same recorder changes nothing.
\<close>

theorem batch_stop_releases_stream_once:
  assumes "transcriptionMethod s = Aiml" and "isRecording s" and "\<not> isTranscribing s"
    and "mediaRecorderRef s = Some rid" and "rid < length (recorders s)"
    and "rec_phase (recorders s ! rid) = Recording"
    and "rec_stream (recorders s ! rid) = sid" and "sid < length (streams s)"
  shows "streams (run [ClickToggle env, DataAvailable chunk, RecorderStop rid] s) = streams s \<and>
    streams (run [ClickToggle env, DataAvailable chunk, RecorderStop rid, UploadSettled rid out] s) =
      (streams s)[sid := Suc (streams s ! sid)] \<and>
    streams (run [ClickToggle env, DataAvailable chunk, RecorderStop rid, UploadSettled rid out] s) ! sid =
      Suc (streams s ! sid) \<and>
    streamRef (run [ClickToggle env, DataAvailable chunk, RecorderStop rid, UploadSettled rid out] s) =
      None \<and>
    run [ClickToggle env, DataAvailable chunk, RecorderStop rid, UploadSettled rid out,
         UploadSettled rid out'] s =
      run [ClickToggle env, DataAvailable chunk, RecorderStop rid, UploadSettled rid out] s"
proof -
  let ?u = "run [ClickToggle env, DataAvailable chunk, RecorderStop rid] s"
  note u = stop_then_upload [OF assms(1-6), of env chunk]
  have r: "\<And>x. run [ClickToggle env, DataAvailable chunk, RecorderStop rid, UploadSettled rid x] s
             = step (UploadSettled rid x) ?u"
    by simp
  have r2: "run [ClickToggle env, DataAvailable chunk, RecorderStop rid, UploadSettled rid out,
         UploadSettled rid out'] s = step (UploadSettled rid out') (step (UploadSettled rid out) ?u)"
    by simp
  show ?thesis
    unfolding r r2
    using u(1) settle_releases [OF u(2), of out] u(3) assms(7,8)
      settle_ignored [of rid "step (UploadSettled rid out) ?u" out']
    by simp
qed

theorem batch_stop_releases_stream_once_witness:
  "transcriptionMethod batch_recording = Aiml \<and> isRecording batch_recording \<and>
   \<not> isTranscribing batch_recording \<and> mediaRecorderRef batch_recording = Some 0 \<and>
   rec_phase (recorders batch_recording ! 0) = Recording \<and>
   rec_stream (recorders batch_recording ! 0) = 0 \<and> streams batch_recording = [0] \<and>
   0 < length (streams batch_recording) \<and>
   streams (run [ClickToggle env_granted, DataAvailable ''RIFF'', RecorderStop 0] batch_recording) = [0] \<and>
   streams (run [ClickToggle env_granted, DataAvailable ''RIFF'', RecorderStop 0,
                 UploadSettled 0 (FetchRejects ''Failed to fetch'')] batch_recording) = [1]"
  using batch_stop_releases_stream_once
    [of batch_recording 0 0 env_granted "''RIFF''" "FetchRejects ''Failed to fetch''"]
  by (simp add: concrete_defs all_defs example_defs)

subsection \<open>Starting while a capture is running\<close>

text \<open>
  The toggle is written as a start/stop switch: while Processing the button and the
  Space key do nothing, and while the active backend's own capture flag is set they call
  that backend's stop.
\<close>

lemma toggle_stops_active_backend:
  "(isTranscribing s \<longrightarrow>
      handle (ClickToggle env) s = s \<and> handle (KeyDown space_key env) s = s) \<and>
   (\<not> isTranscribing s \<and> transcriptionMethod s = WebApi \<and> isListening s \<longrightarrow>
      handle (ClickToggle env) s = stopListening s \<and>
      handle (KeyDown space_key env) s = stopListening s) \<and>
   (\<not> isTranscribing s \<and> transcriptionMethod s = Aiml \<and> isRecording s \<longrightarrow>
      handle (ClickToggle env) s = stopWhisperRecording s \<and>
      handle (KeyDown space_key env) s = stopWhisperRecording s)"
  by (simp add: click_toggle_def handleKeyDown_def toggle_def space_key_def)

text \<open>
  C4 does not hold on the page. With a Live capture running and the backend switched to
  OpenAI, the status is Capturing and the button reads "Stop Recording", but the toggle
  (button or Space) looks at \<^verbatim>\<open>isRecording\<close> alone and starts a Batch capture: the start
  is not rejected, a second microphone stream and a recorder are opened, and the session
  is listening and recording at once.
\<close>

theorem toggle_starts_second_capture:
  "status live_then_batch_selected = Capturing \<and>
   isListening live_then_batch_selected \<and>
   streams live_then_batch_selected = [0] \<and>
   streams (step (ClickToggle env_granted) live_then_batch_selected) = [0, 0] \<and>
   isListening (step (ClickToggle env_granted) live_then_batch_selected) \<and>
   isRecording (step (ClickToggle env_granted) live_then_batch_selected) \<and>
   length (recorders (step (KeyDown space_key env_granted) live_then_batch_selected)) \<noteq>
     length (recorders live_then_batch_selected)"
  by (simp add: status_def concrete_defs all_defs example_defs)

text \<open>
  The stream that \<^verbatim>\<open>startListening\<close> obtains is never stopped: after a Live capture has
  ended the stream is still open, and the next Live capture opens another.
\<close>

lemma live_capture_keeps_its_stream:
  "streams (run [ClickToggle env_granted, RecognitionEnd] live_capturing) = [0] \<and>
   status (run [ClickToggle env_granted, RecognitionEnd] live_capturing) = Idle \<and>
   streams (run [ClickToggle env_granted, RecognitionEnd, ClickToggle env_granted,
                 RecognitionStart] live_capturing) = [0, 0]"
  by (simp add: status_def concrete_defs all_defs example_defs)

subsection \<open>Interim text and edits of the text area\<close>

text \<open>
  For every event but an edit of the text area, the transcript afterwards does not depend
  on the interim text.
\<close>

lemma transcript_ignores_interim:
  "(\<forall>ed. e \<noteq> TextareaChange ed) \<Longrightarrow>
   transcript (step e (s\<lparr>interimTranscript := v\<rparr>)) = transcript (step e s)"
proof (cases e)
  case (KeyDown k env)
  then show ?thesis
    by (simp add: step_def after_render_frame handleKeyDown_transcript)
next
  case (ClickToggle env)
  then show ?thesis
    by (simp add: step_def after_render_frame click_toggle_def toggle_transcript)
qed (simp_all add: step_def after_render_frame all_defs Let_def
       split: option.splits prod.splits fetch_outcome.splits json_body.splits)

text \<open>
  C2 does not hold for edits of the text area. A Live capture delivers the finalized
  segment \<open>hello\<close> and then the interim segment \<open>world\<close>; the text area shows
  \<open>hello world\<close>. The user types an exclamation mark at the end: the transcript now
  contains \<open>world\<close>, which was never finalized, and the interim text is still
  \<open>world\<close>.
\<close>

theorem textarea_edit_persists_interim:
  "transcript (run [RecognitionResult batch_hello, RecognitionResult batch_hello_world] initial) =
     ''hello '' \<and>
   interimTranscript (run [RecognitionResult batch_hello, RecognitionResult batch_hello_world]
     initial) = ''world'' \<and>
   transcript (run [RecognitionResult batch_hello, RecognitionResult batch_hello_world,
     TextareaChange typed_at_end] initial) = ''hello world!'' \<and>
   interimTranscript (run [RecognitionResult batch_hello, RecognitionResult batch_hello_world,
     TextareaChange typed_at_end] initial) = ''world''"
  by (simp add: concrete_defs all_defs example_defs textarea_value_def apply_edit_def)

subsection \<open>Batch transcription never throws\<close>

text \<open>
  C9: \<^verbatim>\<open>transcribeWithWhisper\<close> never passes an exception to its caller. On every
  outcome of the request (the fetch rejects, the response is not ok, a body does not
  parse, or the response is ok) the call completes normally, with \<^verbatim>\<open>isTranscribing\<close>
  false and the capture-completion trigger \<^verbatim>\<open>justStoppedRecording\<close> set.
\<close>

theorem transcribeWithWhisper_never_throws:
  "snd (transcribeWithWhisper out s) = None \<and>
   \<not> isTranscribing (fst (transcribeWithWhisper out s)) \<and>
   justStoppedRecording (fst (transcribeWithWhisper out s))"
  by (simp add: transcribeWithWhisper_def transcribeWithWhisper_settle_def whisper_try_def
        whisper_catch_def whisper_finally_def
        split: fetch_outcome.splits json_body.splits option.splits)

theorem transcribeWithWhisper_never_throws_witness:
  "snd (transcribeWithWhisper (ResponseNotOk (JsonValue (Some ''File too large (max 25MB)''))) initial) = None \<and>
   \<not> isTranscribing (fst (transcribeWithWhisper (FetchRejects ''Failed to fetch'') initial))"
  using transcribeWithWhisper_never_throws
          [of "ResponseNotOk (JsonValue (Some ''File too large (max 25MB)''))" initial]
        transcribeWithWhisper_never_throws [of "FetchRejects ''Failed to fetch''" initial]
  by simp

subsection \<open>The clear shortcut\<close>

text \<open>
  C10: with an empty transcript, Ctrl+D does nothing, whatever the interim text is: the
  shortcut is guarded on a non-empty transcript, so the interim text stays as it was.
  \<^verbatim>\<open>clearTranscript\<close> itself, whenever it runs, empties both the transcript and the
  interim text.
\<close>

theorem ctrl_d_noop_on_empty_transcript:
  assumes "transcript s = []"
  shows "handleKeyDown ctrl_D env s = s \<and> step (KeyDown ctrl_D env) s = s \<and>
         interimTranscript (step (KeyDown ctrl_D env) s) = interimTranscript s \<and>
         transcript (clearTranscript s') = [] \<and> interimTranscript (clearTranscript s') = []"
  using assms
  by (simp add: handleKeyDown_def ctrl_D_def step_def after_render_same clearTranscript_def)

theorem ctrl_d_noop_on_empty_transcript_witness:
  "transcript (initial\<lparr>interimTranscript := ''wor''\<rparr>) = [] \<and>
   step (KeyDown ctrl_D env_granted) (initial\<lparr>interimTranscript := ''wor''\<rparr>) =
     initial\<lparr>interimTranscript := ''wor''\<rparr> \<and>
   interimTranscript (step (KeyDown ctrl_D env_granted) (initial\<lparr>interimTranscript := ''wor''\<rparr>)) =
     ''wor''"
  using ctrl_d_noop_on_empty_transcript [of "initial\<lparr>interimTranscript := ''wor''\<rparr>" env_granted]
  by (simp add: initial_def)

end
